theory Spec2Isabelle
  imports Main "HOL-Library.Word"
begin

section \<open>JavaScript values used by the client\<close>

text \<open>
  A JavaScript string is a sequence of UTF-16 code units. Literals of the source are
  written \<open>lit ''...''\<close>.
\<close>

type_synonym jstring = "16 word list"

definition lit :: "string \<Rightarrow> jstring" where
  "lit s = map (\<lambda>c. of_nat (of_char c)) s"

text \<open>
  The values that reach the client as JSON fields or as absent properties. Strict
  equality \<open>===\<close> on these values is HOL equality: same constructor, same content.
\<close>

datatype jsval = JUndefined | JNull | JBool bool | JNum int | JStr jstring

text \<open>\<open>ToBoolean\<close>: what \<open>!v\<close>, \<open>v || d\<close> and \<open>filter(Boolean)\<close> test.\<close>

fun truthy :: "jsval \<Rightarrow> bool" where
  "truthy JUndefined = False"
| "truthy JNull = False"
| "truthy (JBool b) = b"
| "truthy (JNum n) = (n \<noteq> 0)"
| "truthy (JStr s) = (s \<noteq> [])"

text \<open>\<open>a || b\<close> on values.\<close>

definition js_or :: "jsval \<Rightarrow> jsval \<Rightarrow> jsval" where
  "js_or a b = (if truthy a then a else b)"

text \<open>
  A Number with an integer value, as \<open>parseInt\<close> returns it: \<open>NaN\<close>, a finite
  double \<open>Num n\<close> whose value is the integer \<open>n\<close>, or an infinity. The sign of a
  zero is not kept: both zeros are \<open>Num 0\<close>, and both are falsy.
\<close>

datatype jsnumber = NaN | Num int | PosInfinity | NegInfinity

text \<open>\<open>ToBoolean\<close> of a Number: \<open>NaN\<close> and the zeros are falsy, all else is truthy.\<close>

fun truthy_num :: "jsnumber \<Rightarrow> bool" where
  "truthy_num NaN = False"
| "truthy_num (Num n) = (n \<noteq> 0)"
| "truthy_num PosInfinity = True"
| "truthy_num NegInfinity = True"

text \<open>\<open>x || d\<close> on Numbers.\<close>

definition or_num :: "jsnumber \<Rightarrow> jsnumber \<Rightarrow> jsnumber" where
  "or_num x d = (if truthy_num x then x else d)"

text \<open>
  The conversion of a mathematical integer to a Number: the nearest double, ties to
  the even significand, and an infinity from \<open>2 ^ 1024\<close> on. A double has 53
  significant bits, so a magnitude of more bits keeps its 53 leading bits, rounded.
\<close>

fun bit_length :: "nat \<Rightarrow> nat" where
  "bit_length n = (if n = 0 then 0 else Suc (bit_length (n div 2)))"

declare bit_length.simps [simp del]

definition round_magnitude :: "nat \<Rightarrow> nat option" where
  "round_magnitude m =
     (if bit_length m \<le> 53 then Some m
      else
        (let e = bit_length m - 53;
             q = m div 2 ^ e;
             r = m mod 2 ^ e;
             half = 2 ^ (e - 1);
             q' = (if r > half \<or> (r = half \<and> odd q) then q + 1 else q);
             v = q' * 2 ^ e
         in if v \<ge> 2 ^ 1024 then None else Some v))"

definition to_number :: "int \<Rightarrow> nat \<Rightarrow> jsnumber" where
  "to_number sign m =
     (case round_magnitude m of
        Some v \<Rightarrow> Num (sign * int v)
      | None \<Rightarrow> (if sign < 0 then NegInfinity else PosInfinity))"

subsection \<open>String built-ins: \<open>split\<close>, \<open>trim\<close>, \<open>parseInt\<close>\<close>

text \<open>White space and line terminators of ECMAScript, as stripped by \<open>trim\<close> and \<open>parseInt\<close>.\<close>

definition is_ws :: "16 word \<Rightarrow> bool" where
  "is_ws c \<longleftrightarrow>
     c = 0x09 \<or> c = 0x0A \<or> c = 0x0B \<or> c = 0x0C \<or> c = 0x0D \<or> c = 0x20 \<or> c = 0xA0 \<or>
     c = 0x1680 \<or> (0x2000 \<le> c \<and> c \<le> 0x200A) \<or> c = 0x2028 \<or> c = 0x2029 \<or>
     c = 0x202F \<or> c = 0x205F \<or> c = 0x3000 \<or> c = 0xFEFF"

definition comma :: "16 word" where
  "comma = 0x2C"

text \<open>
  \<open>s.split(sep)\<close> for a one-unit separator: the pieces between the separators, in
  order; the empty string gives one empty piece. The result is never the empty list,
  so the last case of the \<open>case\<close> is not reached.
\<close>

fun split_on :: "'a \<Rightarrow> 'a list \<Rightarrow> 'a list list" where
  "split_on sep [] = [ [] ]"
| "split_on sep (c # cs) =
     (if c = sep then [] # split_on sep cs
      else (case split_on sep cs of
              w # ws \<Rightarrow> (c # w) # ws
            | [] \<Rightarrow> [ [c] ]))"

text \<open>\<open>s.trim()\<close>: white space removed at both ends.\<close>

definition trim :: "jstring \<Rightarrow> jstring" where
  "trim s = rev (dropWhile is_ws (rev (dropWhile is_ws s)))"

text \<open>
  \<open>text.split(',').map(s => s.trim()).filter(Boolean)\<close>, the expression of
  \<open>CreateTask.handleSubmit\<close> and of \<open>ProfileSettings.handleSubmit\<close>.
\<close>

definition split_trim_filter :: "jstring \<Rightarrow> jstring list" where
  "split_trim_filter text = filter (\<lambda>s. truthy (JStr s)) (map trim (split_on comma text))"

text \<open>Digits of \<open>parseInt\<close> in radix 10 and 16.\<close>

definition dec_digit :: "16 word \<Rightarrow> nat option" where
  "dec_digit c = (if 0x30 \<le> c \<and> c \<le> 0x39 then Some (unat c - 48) else None)"

definition hex_digit :: "16 word \<Rightarrow> nat option" where
  "hex_digit c =
     (if 0x30 \<le> c \<and> c \<le> 0x39 then Some (unat c - 48)
      else if 0x61 \<le> c \<and> c \<le> 0x66 then Some (unat c - 87)
      else if 0x41 \<le> c \<and> c \<le> 0x46 then Some (unat c - 55)
      else None)"

definition digit_of :: "nat \<Rightarrow> 16 word \<Rightarrow> nat option" where
  "digit_of R c = (if R = 16 then hex_digit c else dec_digit c)"

definition digits_value :: "nat \<Rightarrow> jstring \<Rightarrow> nat" where
  "digits_value R Z = foldl (\<lambda>a c. a * R + (case digit_of R c of Some d \<Rightarrow> d | None \<Rightarrow> 0)) 0 Z"

text \<open>
  \<open>parseInt(text)\<close> with no radix argument: leading white space is dropped, one sign
  is read, a prefix \<open>0x\<close> or \<open>0X\<close> selects radix 16, the longest run of digits is
  read, and no digit at all gives \<open>NaN\<close>. The digits are read exactly and the
  signed integer is converted to a Number once, as the engines do; the standard would
  also allow digits after the twentieth to be read as zeros.
\<close>

definition parseInt :: "jstring \<Rightarrow> jsnumber" where
  "parseInt inputString =
     (let S0 = dropWhile is_ws inputString;
          sign = (if S0 \<noteq> [] \<and> hd S0 = 0x2D then - 1 else (1::int));
          S1 = (if S0 \<noteq> [] \<and> (hd S0 = 0x2B \<or> hd S0 = 0x2D) then tl S0 else S0);
          hex = (take 2 S1 = lit ''0x'' \<or> take 2 S1 = lit ''0X'');
          R = (if hex then 16 else 10);
          S2 = (if hex then drop 2 S1 else S1);
          Z = takeWhile (\<lambda>c. digit_of R c \<noteq> None) S2
      in if Z = [] then NaN else to_number sign (digits_value R Z))"

section \<open>Requests, responses and effects\<close>

text \<open>
  The fields of a task object that the modelled functions read. Every field is a
  value of the JSON response; an absent field reads as \<open>undefined\<close>.
\<close>

record task =
  t_id :: jsval
  t_status :: jsval
  t_created_by :: jsval
  t_assigned_to :: jsval
  t_before_photo :: jsval
  t_after_photo :: jsval

record user =
  u_id :: jsval

text \<open>The state of the create form (\<open>formData\<close> of \<open>CreateTask\<close>) and the posted object.\<close>

record create_form =
  cf_title :: jstring
  cf_description :: jstring
  cf_duration :: int
  cf_credits_offered :: int
  cf_task_type :: jstring
  cf_skills_required :: jstring
  cf_location :: jstring

record create_body =
  cb_title :: jstring
  cb_description :: jstring
  cb_duration :: int
  cb_credits_offered :: int
  cb_task_type :: jstring
  cb_skills_required :: "jstring list"
  cb_location :: jstring

text \<open>The state of the profile form and the object put to the profile endpoint.\<close>

record profile_form =
  pf_name :: jstring
  pf_skills :: jstring
  pf_location :: jstring
  pf_availability :: jstring

record profile_body =
  pb_name :: jstring
  pb_skills :: "jstring list"
  pb_location :: jstring
  pb_availability :: jstring

datatype http_method = GET | POST | PUT

text \<open>
  The URLs the client builds, relative to \<open>${API}\<close>:
  \<open>/tasks\<close>, \<open>/tasks/my\<close>, \<open>/tasks/${id}\<close>, \<open>/tasks/${id}/assign\<close>,
  \<open>/tasks/${id}/validate\<close>, \<open>/users/profile\<close>.
\<close>

datatype url =
    Tasks
  | TasksMy
  | TaskById jsval
  | TaskAssign jsval
  | TaskValidate jsval
  | UsersProfile

datatype body = NoBody | CreateBody create_body | ProfileBody profile_body

text \<open>An object with string keys, such as the \<open>params\<close> of a request.\<close>

type_synonym jsobj = "string \<rightharpoonup> jsval"

record request =
  r_method :: http_method
  r_url :: url
  r_params :: jsobj
  r_body :: body

text \<open>
  What an awaited request settles to: the response data, or a rejection whose
  \<open>error.response?.data?.detail\<close> is the given value (\<open>undefined\<close> when absent).
\<close>

datatype 'a response = Resolved 'a | Rejected jsval

datatype toast_kind = Success | Error | Warning

text \<open>
  What a handler does, in order: state setters, requests, toasts, navigation and
  calls of callback props.
\<close>

datatype effect =
    SetLoading bool
  | Http request
  | Toast toast_kind jsval
  | Navigate string
  | SetTask task
  | SetTasks "task list"
  | MergeUser jsobj
  | Call string

definition requests_of :: "effect list \<Rightarrow> request list" where
  "requests_of es = concat (map (\<lambda>e. case e of Http r \<Rightarrow> [r] | _ \<Rightarrow> []) es)"

section \<open>The client's functions\<close>

subsection \<open>\<open>DashboardLayout.loadTasks\<close>\<close>

text \<open>
  \<open>const params = { status: 'open', ...filters };\<close>
  \<open>if (filters.taskType === 'all') delete params.taskType;\<close>
  The spread copies every key of \<open>filters\<close> over the object that holds \<open>status\<close>.
\<close>

definition loadTasks_params :: "jsobj \<Rightarrow> jsobj" where
  "loadTasks_params filters =
     (let params = [''status'' \<mapsto> JStr (lit ''open'')] ++ filters
      in if filters ''taskType'' = Some (JStr (lit ''all''))
         then params(''taskType'' := None)
         else params)"

text \<open>
  \<open>loadTasks(filters = {})\<close>; the second argument is what the awaited
  \<open>axios.get\<close> settles to. \<open>SetLoading\<close> stands for \<open>setLoadingTasks\<close> here.
\<close>

definition loadTasks :: "jsobj \<Rightarrow> task list response \<Rightarrow> effect list" where
  "loadTasks filters resp =
     [SetLoading True,
      Http \<lparr>r_method = GET, r_url = Tasks, r_params = loadTasks_params filters, r_body = NoBody\<rparr>]
     @ (case resp of
          Resolved data \<Rightarrow> [SetTasks data]
        | Rejected _ \<Rightarrow> [Toast Error (JStr (lit ''Failed to load explore tasks.''))])
     @ [SetLoading False]"

subsection \<open>\<open>BrowseTasks\<close>\<close>

text \<open>The state \<open>filters\<close> of the explore page: the search box and the type selection.\<close>

record browse_filters =
  searchTerm :: jstring
  taskType :: jstring

text \<open>
  The object of the debounced effect,
  \<open>{ title: filters.searchTerm, task_type: filters.taskType }\<close>.
\<close>

definition effect_filters :: "browse_filters \<Rightarrow> jsobj" where
  "effect_filters f = [''title'' \<mapsto> JStr (searchTerm f), ''task_type'' \<mapsto> JStr (taskType f)]"

text \<open>The state object itself, which \<open>onAssign={() => loadTasks(filters)}\<close> passes.\<close>

definition state_filters :: "browse_filters \<Rightarrow> jsobj" where
  "state_filters f = [''searchTerm'' \<mapsto> JStr (searchTerm f), ''taskType'' \<mapsto> JStr (taskType f)]"

definition BrowseTasks_effect :: "browse_filters \<Rightarrow> task list response \<Rightarrow> effect list" where
  "BrowseTasks_effect f resp = loadTasks (effect_filters f) resp"

definition BrowseTasks_onAssign :: "browse_filters \<Rightarrow> task list response \<Rightarrow> effect list" where
  "BrowseTasks_onAssign f resp = loadTasks (state_filters f) resp"

subsection \<open>\<open>CreateTask\<close>\<close>

text \<open>
  \<open>formData\<close> as the object the change handlers update: text fields hold strings,
  \<open>duration\<close> and \<open>credits_offered\<close> hold Numbers.
\<close>

datatype form_value = FText jstring | FNumber jsnumber

type_synonym form_object = "string \<rightharpoonup> form_value"

text \<open>
  The \<open>onChange\<close> handlers of the duration and credits inputs,
  \<open>setFormData(p => ({...p, duration: parseInt(e.target.value) || 30}))\<close> and
  \<open>setFormData(p => ({...p, credits_offered: parseInt(e.target.value) || 30}))\<close>:
  the object is copied and the one key replaced.
\<close>

definition onChange_duration :: "form_object \<Rightarrow> jstring \<Rightarrow> form_object" where
  "onChange_duration p text = p(''duration'' \<mapsto> FNumber (or_num (parseInt text) (Num 30)))"

definition onChange_credits :: "form_object \<Rightarrow> jstring \<Rightarrow> form_object" where
  "onChange_credits p text = p(''credits_offered'' \<mapsto> FNumber (or_num (parseInt text) (Num 30)))"

text \<open>\<open>{ ...formData, skills_required: formData.skills_required.split(',')... }\<close>\<close>

definition CreateTask_body :: "create_form \<Rightarrow> create_body" where
  "CreateTask_body formData =
     \<lparr>cb_title = cf_title formData,
      cb_description = cf_description formData,
      cb_duration = cf_duration formData,
      cb_credits_offered = cf_credits_offered formData,
      cb_task_type = cf_task_type formData,
      cb_skills_required = split_trim_filter (cf_skills_required formData),
      cb_location = cf_location formData\<rparr>"

text \<open>
  \<open>CreateTask.handleSubmit\<close>. No check of the form data precedes the request; a
  rejection shows \<open>error.response?.data?.detail || 'Failed to create task'\<close>.
\<close>

definition CreateTask_handleSubmit :: "create_form \<Rightarrow> 'a response \<Rightarrow> effect list" where
  "CreateTask_handleSubmit formData resp =
     [SetLoading True,
      Http \<lparr>r_method = POST, r_url = Tasks, r_params = Map.empty,
            r_body = CreateBody (CreateTask_body formData)\<rparr>]
     @ (case resp of
          Resolved _ \<Rightarrow>
            [Toast Success (JStr (lit ''Task created successfully!'')),
             Call ''onTaskCreated'',
             Navigate ''/dashboard/my-tasks'']
        | Rejected detail \<Rightarrow> [Toast Error (js_or detail (JStr (lit ''Failed to create task'')))])
     @ [SetLoading False]"

text \<open>The initial \<open>formData\<close> of \<open>CreateTask\<close>, as an object and as a record.\<close>

definition initial_form_object :: form_object where
  "initial_form_object =
     [''title'' \<mapsto> FText [], ''description'' \<mapsto> FText [],
      ''duration'' \<mapsto> FNumber (Num 30), ''credits_offered'' \<mapsto> FNumber (Num 30),
      ''task_type'' \<mapsto> FText (lit ''request''), ''skills_required'' \<mapsto> FText [],
      ''location'' \<mapsto> FText []]"

definition initial_formData :: create_form where
  "initial_formData =
     \<lparr>cf_title = [], cf_description = [], cf_duration = 30, cf_credits_offered = 30,
      cf_task_type = lit ''request'', cf_skills_required = [], cf_location = []\<rparr>"

subsection \<open>\<open>ProfileSettings\<close>\<close>

definition ProfileSettings_body :: "profile_form \<Rightarrow> profile_body" where
  "ProfileSettings_body formData =
     \<lparr>pb_name = pf_name formData,
      pb_skills = split_trim_filter (pf_skills formData),
      pb_location = pf_location formData,
      pb_availability = pf_availability formData\<rparr>"

definition ProfileSettings_handleSubmit :: "profile_form \<Rightarrow> jsobj response \<Rightarrow> effect list" where
  "ProfileSettings_handleSubmit formData resp =
     [SetLoading True,
      Http \<lparr>r_method = PUT, r_url = UsersProfile, r_params = Map.empty,
            r_body = ProfileBody (ProfileSettings_body formData)\<rparr>]
     @ (case resp of
          Resolved data \<Rightarrow> [MergeUser data, Toast Success (JStr (lit ''Profile updated!''))]
        | Rejected _ \<Rightarrow> [Toast Error (JStr (lit ''Failed to update profile.''))])
     @ [SetLoading False]"

subsection \<open>\<open>TaskDetailPage\<close>\<close>

text \<open>
  \<open>fetchTask\<close>: \<open>taskId\<close> is the route parameter, a string.
  \<open>data.find(t => t.id === taskId)\<close> is the first element with that id.
\<close>

definition fetchTask :: "jstring \<Rightarrow> task list response \<Rightarrow> effect list" where
  "fetchTask taskId resp =
     [SetLoading True,
      Http \<lparr>r_method = GET, r_url = TasksMy, r_params = Map.empty, r_body = NoBody\<rparr>]
     @ (case resp of
          Resolved data \<Rightarrow>
            (case find (\<lambda>t. t_id t = JStr taskId) data of
               Some foundTask \<Rightarrow> [SetTask foundTask]
             | None \<Rightarrow>
                 [Toast Error (JStr (lit ''Task not found or you don't have access.'')),
                  Navigate ''/dashboard/my-tasks''])
        | Rejected _ \<Rightarrow> [Toast Error (JStr (lit ''Failed to load task details.''))])
     @ [SetLoading False]"

text \<open>
  \<open>handleValidation\<close>, for the task on display. The guard returns before the
  \<open>try\<close>; after a successful post \<open>onUpdate()\<close> and \<open>fetchTask()\<close> are called.
\<close>

definition handleValidation :: "task \<Rightarrow> jstring \<Rightarrow> 'a response \<Rightarrow> effect list" where
  "handleValidation task taskId resp =
     (if \<not> truthy (t_before_photo task) \<or> \<not> truthy (t_after_photo task)
      then [Toast Warning (JStr (lit ''Please upload both before and after photos.''))]
      else
        [Http \<lparr>r_method = POST, r_url = TaskValidate (JStr taskId), r_params = Map.empty,
               r_body = NoBody\<rparr>]
        @ (case resp of
             Resolved _ \<Rightarrow>
               [Toast Success (JStr (lit ''Task submitted for validation!'')),
                Call ''onUpdate'',
                Call ''fetchTask'']
           | Rejected detail \<Rightarrow> [Toast Error (js_or detail (JStr (lit ''Validation failed.'')))]))"

definition isTaskAssignee :: "user \<Rightarrow> task \<Rightarrow> bool" where
  "isTaskAssignee user task \<longleftrightarrow> t_assigned_to task = u_id user"

text \<open>
  A button of a page: not rendered, rendered with \<open>disabled\<close>, or rendered and
  clickable. Only a clickable button runs its \<open>onClick\<close>.
\<close>

datatype button = Absent | Disabled | Enabled

text \<open>
  The Complete Task button: inside
  \<open>{isTaskAssignee && task.status === 'assigned' && (...)}\<close>, with
  \<open>disabled={!task.before_photo || !task.after_photo}\<close>.
\<close>

definition complete_button :: "user \<Rightarrow> task \<Rightarrow> button" where
  "complete_button user task =
     (if isTaskAssignee user task \<and> t_status task = JStr (lit ''assigned'')
      then (if \<not> truthy (t_before_photo task) \<or> \<not> truthy (t_after_photo task)
            then Disabled else Enabled)
      else Absent)"

subsection \<open>\<open>TaskCard\<close>\<close>

text \<open>
  The Accept Task button: \<open>{(task.status === 'open') && <div ...><Button ...>}\<close>.
  \<open>TaskCard\<close> receives the task and \<open>onAssign\<close>, not the user.
\<close>

definition accept_button :: "task \<Rightarrow> button" where
  "accept_button task = (if t_status task = JStr (lit ''open'') then Enabled else Absent)"

text \<open>\<open>handleAssign\<close>; the flag says whether the prop \<open>onAssign\<close> was given.\<close>

definition handleAssign :: "task \<Rightarrow> bool \<Rightarrow> 'a response \<Rightarrow> effect list" where
  "handleAssign task onAssign resp =
     [Http \<lparr>r_method = POST, r_url = TaskAssign (t_id task), r_params = Map.empty,
            r_body = NoBody\<rparr>]
     @ (case resp of
          Resolved _ \<Rightarrow>
            Toast Success (JStr (lit ''Task assigned successfully!''))
            # (if onAssign then [Call ''onAssign''] else [])
        | Rejected detail \<Rightarrow> [Toast Error (js_or detail (JStr (lit ''Failed to assign task'')))])"

section \<open>The task store, the ledger and the lifecycle engine\<close>

text \<open>
  The server behind the endpoints is not part of the client's source file. The
  definitions of this section follow the specification of the core (its sections 3
  and 4); each one says so.
\<close>

type_synonym user_id = nat
type_synonym task_id = nat

datatype status = Open | Assigned | Validated | Cancelled

datatype core_error =
    ValidationError
  | Forbidden
  | InvalidState
  | TransferFailed
  | GateRejected
  | NoSuchTask

datatype ledger_error = InsufficientBalance | InvalidAmount | SameAccount

text \<open>
  Modelled from the spec: the Task record of the data model (section 3), of which the
  server's declaration is missing. Timestamps are left out.
\<close>

record core_task =
  owner :: user_id
  assignee :: "user_id option"
  title :: jstring
  description :: jstring
  task_type :: jstring
  duration :: int
  credits_offered :: int
  location :: jstring
  skills_required :: "jstring set"
  status :: status
  before_photo :: "jstring option"
  after_photo :: "jstring option"

text \<open>
  Modelled from the spec: the persisted state (section 6), a tasks table keyed by id
  and a balance per user. The counter \<open>next_id\<close> stands for the allocation of task
  identities, which the spec leaves open.
\<close>

record core =
  tasks :: "task_id \<rightharpoonup> core_task"
  balances :: "user_id \<Rightarrow> int"
  next_id :: task_id

text \<open>
  Modelled from the spec: \<open>transfer(from, to, amount)\<close> of the Ledger (section 4.1),
  whose code is missing. It fails with \<open>InvalidAmount\<close> if \<open>amount \<le> 0\<close>, with
  \<open>SameAccount\<close> if \<open>from = to\<close>, with \<open>InsufficientBalance\<close> if the balance of
  \<open>from\<close> is below \<open>amount\<close>; otherwise both balances change together.
\<close>

definition transfer ::
  "(user_id \<Rightarrow> int) \<Rightarrow> user_id \<Rightarrow> user_id \<Rightarrow> int \<Rightarrow> ledger_error + (user_id \<Rightarrow> int)" where
  "transfer b from to amount =
     (if amount \<le> 0 then Inl InvalidAmount
      else if from = to then Inl SameAccount
      else if b from < amount then Inl InsufficientBalance
      else Inr (b(from := b from - amount, to := b to + amount)))"

text \<open>
  Modelled from the spec: \<open>setStatus\<close> of the Task Store (section 4.2), the only
  mutator of \<open>status\<close>.
\<close>

definition setStatus :: "core \<Rightarrow> task_id \<Rightarrow> status \<Rightarrow> core" where
  "setStatus s tid new_status =
     (case tasks s tid of
        None \<Rightarrow> s
      | Some t \<Rightarrow> s\<lparr>tasks := (tasks s)(tid \<mapsto> t\<lparr>status := new_status\<rparr>)\<rparr>)"

text \<open>
  Modelled from the spec: \<open>accepts\<close> of the Verification Gate (section 4.4), both
  photo slots non-empty.
\<close>

definition accepts :: "core_task \<Rightarrow> bool" where
  "accepts t \<longleftrightarrow> before_photo t \<noteq> None \<and> after_photo t \<noteq> None"

text \<open>
  Modelled from the spec: \<open>validate(taskId, actorId)\<close> of the Lifecycle Engine
  (section 4.3), whose code is missing. Preconditions: the status is \<open>assigned\<close>, the
  actor is the assignee, the gate accepts. Effect, as one unit: \<open>setStatus(validated)\<close>
  and \<open>transfer(owner, assignee, credits_offered)\<close>; if the transfer fails the whole
  operation fails with \<open>TransferFailed\<close> and nothing of it is kept. The spec names no
  error for a missing task or for a rejection by the gate; \<open>NoSuchTask\<close> and
  \<open>GateRejected\<close> stand for them.
\<close>

definition validate :: "core \<Rightarrow> task_id \<Rightarrow> user_id \<Rightarrow> (core_error + core_task) \<times> core" where
  "validate s tid actor =
     (case tasks s tid of
        None \<Rightarrow> (Inl NoSuchTask, s)
      | Some t \<Rightarrow>
          if status t \<noteq> Assigned then (Inl InvalidState, s)
          else if assignee t \<noteq> Some actor then (Inl Forbidden, s)
          else if \<not> accepts t then (Inl GateRejected, s)
          else
            (let s1 = setStatus s tid Validated
             in case transfer (balances s1) (owner t) actor (credits_offered t) of
                  Inl _ \<Rightarrow> (Inl TransferFailed, s)
                | Inr b \<Rightarrow> (Inr (t\<lparr>status := Validated\<rparr>), s1\<lparr>balances := b\<rparr>)))"

text \<open>
  Modelled from the spec: the bounds that \<open>create\<close> of the Task Store validates
  (section 4.2), \<open>duration \<in> [15,60]\<close>, \<open>credits_offered > 0\<close> and a non-empty
  \<open>title\<close>. The fields are those of the object the client posts.
\<close>

definition bounds_ok :: "create_body \<Rightarrow> bool" where
  "bounds_ok flds \<longleftrightarrow>
     15 \<le> cb_duration flds \<and> cb_duration flds \<le> 60 \<and>
     0 < cb_credits_offered flds \<and> cb_title flds \<noteq> []"

text \<open>
  Modelled from the spec: \<open>create(owner, fields)\<close> of the Task Store (section 4.2),
  whose code is missing. It fails with \<open>ValidationError\<close> on violated bounds, and
  otherwise returns the new task with \<open>status = open\<close>.
\<close>

definition create :: "core \<Rightarrow> user_id \<Rightarrow> create_body \<Rightarrow> (core_error + core_task) \<times> core" where
  "create s owner_id flds =
     (if \<not> bounds_ok flds then (Inl ValidationError, s)
      else
        (let t = \<lparr>owner = owner_id, assignee = None,
                  title = cb_title flds, description = cb_description flds,
                  task_type = cb_task_type flds, duration = cb_duration flds,
                  credits_offered = cb_credits_offered flds,
                  location = cb_location flds,
                  skills_required = set (cb_skills_required flds),
                  status = Open, before_photo = None, after_photo = None\<rparr>
         in (Inr t, s\<lparr>tasks := (tasks s)(next_id s \<mapsto> t), next_id := Suc (next_id s)\<rparr>)))"

text \<open>
  The create flow end to end: \<open>CreateTask.handleSubmit\<close> posts the form's object,
  the store's \<open>create\<close> answers, and the handler continues with that answer. A
  failure reaches the client as a rejection; its detail is not modelled.
\<close>

definition submit_create :: "core \<Rightarrow> user_id \<Rightarrow> create_form \<Rightarrow> effect list \<times> core" where
  "submit_create s owner_id formData =
     (case create s owner_id (CreateTask_body formData) of
        (Inl e, s') \<Rightarrow> (CreateTask_handleSubmit formData (Rejected JUndefined :: core_task response), s')
      | (Inr t, s') \<Rightarrow> (CreateTask_handleSubmit formData (Resolved t), s'))"

section \<open>The wording of the specification, for comparison\<close>

text \<open>Pieces put together again with the separator between them.\<close>

fun join_on :: "'a \<Rightarrow> 'a list list \<Rightarrow> 'a list" where
  "join_on sep [] = []"
| "join_on sep [w] = w"
| "join_on sep (w # ws) = w @ sep # join_on sep ws"

text \<open>
  The comma-separated components of a text: pieces without a comma which, joined by
  commas, give the text.
\<close>

definition comma_components :: "jstring \<Rightarrow> jstring list \<Rightarrow> bool" where
  "comma_components text cs \<longleftrightarrow>
     cs \<noteq> [] \<and> join_on comma cs = text \<and> list_all (\<lambda>c. comma \<notin> set c) cs"

text \<open>A string is whitespace-padded when it starts or ends with white space.\<close>

definition padded :: "jstring \<Rightarrow> bool" where
  "padded s \<longleftrightarrow> s \<noteq> [] \<and> (is_ws (hd s) \<or> is_ws (last s))"

text \<open>
  A component with its surrounding white space trimmed: the white space before the
  first and after the last unit that is not white space is cut off.
\<close>

definition trimmed :: "jstring \<Rightarrow> jstring" where
  "trimmed c = take (length c - length (takeWhile is_ws c) - length (takeWhile is_ws (rev c)))
                 (drop (length (takeWhile is_ws c)) c)"

text \<open>The components trimmed, and the empty ones removed.\<close>

definition trimmed_nonempty :: "jstring list \<Rightarrow> jstring list" where
  "trimmed_nonempty cs = filter (\<lambda>c. c \<noteq> []) (map trimmed cs)"

text \<open>The first non-blank unit of a text cannot start a number: no sign, no digit.\<close>

definition non_numeric :: "jstring \<Rightarrow> bool" where
  "non_numeric text =
     (case dropWhile is_ws text of
        [] \<Rightarrow> True
      | c # _ \<Rightarrow> c \<noteq> 0x2B \<and> c \<noteq> 0x2D \<and> dec_digit c = None)"

text \<open>
  A photo field of a task holds a string (the data URL that was uploaded), \<open>null\<close>,
  or is absent. It is non-empty when it is a string of at least one unit.
\<close>

definition photo_value :: "jsval \<Rightarrow> bool" where
  "photo_value v = (case v of JUndefined \<Rightarrow> True | JNull \<Rightarrow> True | JStr _ \<Rightarrow> True | _ \<Rightarrow> False)"

definition non_empty :: "jsval \<Rightarrow> bool" where
  "non_empty v = (case v of JStr s \<Rightarrow> s \<noteq> [] | _ \<Rightarrow> False)"

section \<open>Sample data\<close>

text \<open>An open task of the explore listing whose creator is the user looking at it.\<close>

definition own_open_task :: task where
  "own_open_task =
     \<lparr>t_id = JStr (lit ''t1''), t_status = JStr (lit ''open''),
      t_created_by = JStr (lit ''u1''), t_assigned_to = JNull,
      t_before_photo = JNull, t_after_photo = JNull\<rparr>"

definition current_user :: user where
  "current_user = \<lparr>u_id = JStr (lit ''u1'')\<rparr>"

text \<open>
  Scenario 4 of the specification: an owner (user 1) with balance 10, a task of 30
  credits assigned to user 2, both photos attached.
\<close>

definition scenario4_task :: core_task where
  "scenario4_task =
     \<lparr>owner = 1, assignee = Some 2, title = lit ''Walk my dog'', description = [],
      task_type = lit ''request'', duration = 30, credits_offered = 30, location = [],
      skills_required = {}, status = Assigned,
      before_photo = Some (lit ''data:a''), after_photo = Some (lit ''data:b'')\<rparr>"

definition scenario4 :: core where
  "scenario4 = \<lparr>tasks = [0 \<mapsto> scenario4_task], balances = (\<lambda>_. 0)(1 := 10), next_id = 1\<rparr>"

text \<open>A store without tasks, every user holding the initial 60 credits.\<close>

definition no_tasks :: core where
  "no_tasks = \<lparr>tasks = Map.empty, balances = (\<lambda>_. 60), next_id = 0\<rparr>"

text \<open>The one request of \<open>fetchTask\<close>: \<open>axios.get(`${API}/tasks/my`)\<close>.\<close>

definition my_tasks_request :: request where
  "my_tasks_request = \<lparr>r_method = GET, r_url = TasksMy, r_params = Map.empty, r_body = NoBody\<rparr>"

section \<open>Splitting and trimming\<close>

lemma split_on_not_Nil: "split_on sep s \<noteq> []"
  by (induction s) (auto split: list.splits)

lemma join_on_Cons: "ws \<noteq> [] \<Longrightarrow> join_on sep (w # ws) = w @ sep # join_on sep ws"
  by (cases ws) auto

lemma join_on_split_on: "join_on sep (split_on sep s) = s"
proof (induction s)
  case Nil
  show ?case by simp
next
  case (Cons c cs)
  show ?case
  proof (cases "c = sep")
    case True
    with Cons show ?thesis by (simp add: join_on_Cons split_on_not_Nil)
  next
    case False
    obtain w ws where sp: "split_on sep cs = w # ws"
      using split_on_not_Nil [of sep cs] by (cases "split_on sep cs") auto
    have "join_on sep ((c # w) # ws) = c # join_on sep (w # ws)"
      by (cases ws) auto
    with Cons False sp show ?thesis by simp
  qed
qed

lemma split_on_no_sep: "c \<in> set (split_on sep s) \<Longrightarrow> sep \<notin> set c"
proof (induction s arbitrary: c)
  case Nil
  then show ?case by simp
next
  case (Cons x xs)
  then show ?case
    by (auto split: if_splits list.splits)
qed

lemma split_on_no_sep_word: "sep \<notin> set w \<Longrightarrow> split_on sep w = [w]"
  by (induction w) auto

lemma split_on_append_sep:
  "sep \<notin> set w \<Longrightarrow> split_on sep (w @ sep # rest) = w # split_on sep rest"
  by (induction w) auto

lemma split_on_join_on:
  "cs \<noteq> [] \<Longrightarrow> list_all (\<lambda>c. sep \<notin> set c) cs \<Longrightarrow> split_on sep (join_on sep cs) = cs"
proof (induction cs rule: join_on.induct)
  case (1 sep)
  then show ?case by simp
next
  case (2 sep w)
  then show ?case by (simp add: split_on_no_sep_word)
next
  case (3 sep w v va)
  then show ?case by (simp add: split_on_append_sep)
qed

lemma comma_components_unique:
  "comma_components text cs \<longleftrightarrow> cs = split_on comma text"
  unfolding comma_components_def
  using split_on_join_on [of cs comma] join_on_split_on [of comma "text"]
    split_on_no_sep [of _ comma "text"] split_on_not_Nil [of comma "text"]
  by (auto simp: list_all_iff)

lemma rev_dropWhile_rev:
  "rev (dropWhile P (rev d)) = take (length d - length (takeWhile P (rev d))) d"
proof -
  have "rev d = takeWhile P (rev d) @ dropWhile P (rev d)" by simp
  then have "d = rev (dropWhile P (rev d)) @ rev (takeWhile P (rev d))"
    by (metis rev_append rev_rev_ident)
  then have "take (length (rev (dropWhile P (rev d)))) d = rev (dropWhile P (rev d))"
    by (metis append_eq_conv_conj)
  moreover have "length (rev (dropWhile P (rev d))) = length d - length (takeWhile P (rev d))"
    by (metis length_rev length_append takeWhile_dropWhile_id add_diff_cancel_left')
  ultimately show ?thesis by simp
qed

lemma takeWhile_rev_drop:
  assumes "dropWhile P c \<noteq> []"
  shows "takeWhile P (rev (dropWhile P c)) = takeWhile P (rev c)"
proof -
  let ?d = "dropWhile P c"
  have c: "c = takeWhile P c @ ?d" by simp
  have "rev c = rev ?d @ rev (takeWhile P c)"
    by (metis c rev_append)
  moreover have "\<exists>x \<in> set (rev ?d). \<not> P x"
    using assms hd_dropWhile [of P c] by (metis hd_in_set set_rev)
  ultimately show ?thesis
    by (metis takeWhile_append1)
qed

lemma trim_eq_trimmed: "trim c = trimmed c"
proof (cases "dropWhile is_ws c = []")
  case True
  have "drop (length (takeWhile is_ws c)) c = dropWhile is_ws c"
    by (simp add: dropWhile_eq_drop)
  then have "trimmed c = []"
    unfolding trimmed_def True by (simp only: take_Nil)
  moreover have "trim c = []"
    unfolding trim_def True by (simp only: rev.simps dropWhile.simps)
  ultimately show ?thesis by simp
next
  case False
  have d: "dropWhile is_ws c = drop (length (takeWhile is_ws c)) c"
    by (simp add: dropWhile_eq_drop)
  have "trim c = take (length (dropWhile is_ws c) - length (takeWhile is_ws (rev (dropWhile is_ws c)))) (dropWhile is_ws c)"
    unfolding trim_def by (rule rev_dropWhile_rev)
  also have "\<dots> = take (length (dropWhile is_ws c) - length (takeWhile is_ws (rev c))) (dropWhile is_ws c)"
    by (simp add: takeWhile_rev_drop [OF False])
  also have "length (dropWhile is_ws c) = length c - length (takeWhile is_ws c)"
    by (simp add: d)
  finally show ?thesis by (simp add: trimmed_def d)
qed

lemma trim_not_padded: "\<not> padded (trim s)"
proof (cases "trim s = []")
  case True
  then show ?thesis by (simp add: padded_def)
next
  case False
  let ?d = "dropWhile is_ws s"
  let ?e = "dropWhile is_ws (rev ?d)"
  have e: "?e \<noteq> []" using False by (simp add: trim_def)
  have d: "?d \<noteq> []"
  proof
    assume "?d = []"
    then have "?e = []" by (simp only: rev.simps dropWhile.simps)
    with e show False by simp
  qed
  have "last (trim s) = hd ?e" by (simp add: trim_def last_rev)
  then have l: "\<not> is_ws (last (trim s))" using hd_dropWhile [OF e] by simp
  have "hd (trim s) = last ?e" using e by (simp add: trim_def hd_rev)
  also have "\<dots> = last (rev ?d)"
    using e by (metis last_appendR takeWhile_dropWhile_id)
  also have "\<dots> = hd ?d" using d by (simp add: last_rev)
  finally have "\<not> is_ws (hd (trim s))" using hd_dropWhile [OF d] by simp
  with l show ?thesis by (simp add: padded_def)
qed

lemma split_trim_filter_spec: "split_trim_filter text = trimmed_nonempty (split_on comma text)"
  by (simp add: split_trim_filter_def trimmed_nonempty_def trim_eq_trimmed [abs_def] cong: map_cong)

section \<open>Effects of the handlers\<close>

lemma requests_of_simps [simp]:
  "requests_of [] = []"
  "requests_of (Http r # es) = r # requests_of es"
  "requests_of (SetLoading b # es) = requests_of es"
  "requests_of (Toast k v # es) = requests_of es"
  "requests_of (Navigate p # es) = requests_of es"
  "requests_of (SetTask t # es) = requests_of es"
  "requests_of (SetTasks ts # es) = requests_of es"
  "requests_of (MergeUser d # es) = requests_of es"
  "requests_of (Call c # es) = requests_of es"
  "requests_of (es @ fs) = requests_of es @ requests_of fs"
  by (simp_all add: requests_of_def)

text \<open>
  Claim C8. For every skills text of the create form or of the profile form, the
  collection in the submitted object is made of the comma-separated components of the
  text, each with its surrounding white space trimmed, the empty ones removed, in
  order. No submitted string is empty or starts or ends with white space.
\<close>

theorem C8_skills:
  assumes "comma_components text cs"
  shows "requests_of (CreateTask_handleSubmit (formData\<lparr>cf_skills_required := text\<rparr>) resp)
           = [\<lparr>r_method = POST, r_url = Tasks, r_params = Map.empty,
               r_body = CreateBody (CreateTask_body (formData\<lparr>cf_skills_required := text\<rparr>))\<rparr>]
       \<and> cb_skills_required (CreateTask_body (formData\<lparr>cf_skills_required := text\<rparr>))
           = trimmed_nonempty cs
       \<and> requests_of (ProfileSettings_handleSubmit (profile\<lparr>pf_skills := text\<rparr>) presp)
           = [\<lparr>r_method = PUT, r_url = UsersProfile, r_params = Map.empty,
               r_body = ProfileBody (ProfileSettings_body (profile\<lparr>pf_skills := text\<rparr>))\<rparr>]
       \<and> pb_skills (ProfileSettings_body (profile\<lparr>pf_skills := text\<rparr>)) = trimmed_nonempty cs
       \<and> (\<forall>s \<in> set (trimmed_nonempty cs). s \<noteq> [] \<and> \<not> padded s)"
proof -
  have cs: "cs = split_on comma text"
    using assms by (simp add: comma_components_unique)
  have a: "split_trim_filter text = trimmed_nonempty cs"
    by (simp add: cs split_trim_filter_spec)
  have b: "\<forall>s \<in> set (split_trim_filter text). s \<noteq> [] \<and> \<not> padded s"
    by (auto simp: split_trim_filter_def trim_not_padded)
  have r1: "requests_of (CreateTask_handleSubmit (formData\<lparr>cf_skills_required := text\<rparr>) resp)
           = [\<lparr>r_method = POST, r_url = Tasks, r_params = Map.empty,
               r_body = CreateBody (CreateTask_body (formData\<lparr>cf_skills_required := text\<rparr>))\<rparr>]"
    by (cases resp) (simp_all add: CreateTask_handleSubmit_def)
  have r2: "requests_of (ProfileSettings_handleSubmit (profile\<lparr>pf_skills := text\<rparr>) presp)
           = [\<lparr>r_method = PUT, r_url = UsersProfile, r_params = Map.empty,
               r_body = ProfileBody (ProfileSettings_body (profile\<lparr>pf_skills := text\<rparr>))\<rparr>]"
    by (cases presp) (simp_all add: ProfileSettings_handleSubmit_def)
  show ?thesis
    using a b r1 r2 by (simp add: CreateTask_body_def ProfileSettings_body_def)
qed

theorem C8_skills_witness:
  "cb_skills_required (CreateTask_body (initial_formData\<lparr>cf_skills_required := lit '' a, ,b ''\<rparr>))
     = [lit ''a'', lit ''b'']"
proof -
  have h: "comma_components (lit '' a, ,b '') [lit '' a'', lit '' '', lit ''b '']"
    by (simp add: comma_components_def lit_def comma_def)
  have t: "trimmed_nonempty [lit '' a'', lit '' '', lit ''b ''] = [lit ''a'', lit ''b'']"
    by (simp add: trimmed_nonempty_def trimmed_def lit_def is_ws_def)
  show ?thesis
    using C8_skills [OF h, THEN conjunct2, THEN conjunct1, of initial_formData] t by simp
qed

lemma parseInt_non_numeric:
  assumes "non_numeric text"
  shows "parseInt text = NaN"
proof (cases "dropWhile is_ws text")
  case Nil
  show ?thesis
    unfolding parseInt_def Nil by (simp add: Let_def lit_def)
next
  case (Cons c rest)
  with assms have c: "c \<noteq> 0x2B" "c \<noteq> 0x2D" "dec_digit c = None"
    by (simp_all add: non_numeric_def)
  then have "c \<noteq> 0x30"
    by (auto simp: dec_digit_def)
  with c show ?thesis
    unfolding parseInt_def Cons by (simp add: Let_def lit_def digit_of_def)
qed

text \<open>The bit length brackets a number between two powers of two.\<close>

lemma bit_length_upper: "n < 2 ^ bit_length n"
proof (induction n rule: bit_length.induct)
  case (1 n)
  show ?case
  proof (cases "n = 0")
    case True
    then show ?thesis by (simp add: bit_length.simps)
  next
    case False
    with 1 have "n div 2 < 2 ^ bit_length (n div 2)" by simp
    then have "n < 2 * 2 ^ bit_length (n div 2)" by arith
    with False show ?thesis by (subst bit_length.simps) simp
  qed
qed

lemma bit_length_lower: "0 < n \<Longrightarrow> 2 ^ (bit_length n - 1) \<le> n"
proof (induction n rule: bit_length.induct)
  case (1 n)
  then have n: "n \<noteq> 0" by simp
  have bl: "bit_length n - 1 = bit_length (n div 2)"
    using n by (subst bit_length.simps) simp
  show ?case
  proof (cases "n div 2 = 0")
    case True
    then have "bit_length (n div 2) = 0" by (simp add: bit_length.simps)
    with bl 1 show ?thesis by simp
  next
    case False
    then have pos: "0 < bit_length (n div 2)" by (subst bit_length.simps) simp
    from False 1 n have "2 ^ (bit_length (n div 2) - 1) \<le> n div 2" by simp
    then have "2 * 2 ^ (bit_length (n div 2) - 1) \<le> n" by arith
    moreover have "(2::nat) * 2 ^ (bit_length (n div 2) - 1) = 2 ^ bit_length (n div 2)"
      using pos by (cases "bit_length (n div 2)") simp_all
    ultimately show ?thesis using bl by simp
  qed
qed

lemma bit_length_gt: "2 ^ k \<le> m \<Longrightarrow> k < bit_length m"
proof -
  assume "2 ^ k \<le> m"
  then have "(2::nat) ^ k < 2 ^ bit_length m"
    using bit_length_upper [of m] by (rule le_less_trans)
  then show ?thesis
    by (rule power_less_imp_less_exp [rotated]) simp
qed

lemma leading_bits_lower:
  assumes "2 ^ k \<le> m" and "53 \<le> k"
  shows "2 ^ k \<le> (m div 2 ^ (bit_length m - 53)) * 2 ^ (bit_length m - 53)"
proof -
  let ?L = "bit_length m"
  let ?e = "?L - 53"
  let ?q = "m div 2 ^ ?e"
  have L: "k < ?L" using assms(1) by (rule bit_length_gt)
  have m: "0 < m"
  proof (cases "m = 0")
    case True
    with assms(1) show ?thesis by simp
  next
    case False
    then show ?thesis by simp
  qed
  have low: "2 ^ (?L - 1) \<le> m" by (rule bit_length_lower [OF m])
  have "?L - 1 = 52 + ?e" using L assms(2) by simp
  then have split: "(2::nat) ^ (?L - 1) = 2 ^ 52 * 2 ^ ?e" by (simp only: power_add)
  have "(2 ^ 52 * 2 ^ ?e) div 2 ^ ?e \<le> m div 2 ^ ?e"
    using low unfolding split by (rule div_le_mono)
  then have "2 ^ 52 \<le> ?q" by simp
  then have "2 ^ 52 * 2 ^ ?e \<le> ?q * 2 ^ ?e" by (rule mult_le_mono1)
  then have q: "2 ^ (?L - 1) \<le> ?q * 2 ^ ?e" by (simp only: split)
  have "k \<le> ?L - 1" using L by simp
  then have "(2::nat) ^ k \<le> 2 ^ (?L - 1)" by (rule power_increasing) simp
  then show ?thesis using q by (rule order_trans)
qed

text \<open>From \<open>2 ^ 1024\<close> on the conversion overflows.\<close>

lemma round_magnitude_overflow:
  assumes "2 ^ 1024 \<le> m"
  shows "round_magnitude m = None"
proof -
  let ?e = "bit_length m - 53"
  let ?q = "m div 2 ^ ?e"
  have L: "1024 < bit_length m" using assms by (rule bit_length_gt)
  have big: "2 ^ 1024 \<le> ?q * 2 ^ ?e"
    using assms by (rule leading_bits_lower) simp
  have "?q * 2 ^ ?e \<le> (?q + 1) * 2 ^ ?e" by simp
  with big have big': "2 ^ 1024 \<le> (?q + 1) * 2 ^ ?e" by (rule order_trans)
  show ?thesis
    unfolding round_magnitude_def Let_def using L big big' by simp
qed

lemma foldl_zero_digits:
  "foldl (\<lambda>a c. a * 10 + (case digit_of 10 c of Some d \<Rightarrow> d | None \<Rightarrow> 0)) a (replicate n 0x30)
     = a * 10 ^ n"
  by (induction n arbitrary: a) (simp_all add: digit_of_def dec_digit_def)

lemma dec_digit_range: "dec_digit c \<noteq> None \<longleftrightarrow> 0x30 \<le> c \<and> c \<le> 0x39"
  by (simp add: dec_digit_def)

lemma dec_digit_not_ws: "dec_digit c \<noteq> None \<Longrightarrow> \<not> is_ws c"
  unfolding dec_digit_range is_ws_def by (auto simp: word_le_nat_alt)

lemma dec_digit_not_sign: "dec_digit c \<noteq> None \<Longrightarrow> c \<noteq> 0x2B \<and> c \<noteq> 0x2D"
  unfolding dec_digit_range by auto

text \<open>A run of decimal digits that does not start with \<open>0\<close> is read as a whole.\<close>

lemma parseInt_plain_digits:
  assumes "s \<noteq> []" and "\<forall>c \<in> set s. dec_digit c \<noteq> None" and "hd s \<noteq> 0x30"
  shows "parseInt s = to_number 1 (digits_value 10 s)"
proof -
  obtain c cs where s: "s = c # cs" using assms(1) by (cases s) auto
  have c: "dec_digit c \<noteq> None" using assms(2) s by simp
  have d: "dropWhile is_ws s = s"
    using dec_digit_not_ws [OF c] s by simp
  have z: "takeWhile (\<lambda>c. digit_of 10 c \<noteq> None) s = s"
    using assms(2) by (simp add: takeWhile_eq_all_conv digit_of_def)
  have h: "take 2 s \<noteq> lit ''0x''" "take 2 s \<noteq> lit ''0X''"
    using assms(3) s by (auto simp: lit_def)
  show ?thesis
    unfolding parseInt_def d Let_def
    using dec_digit_not_sign [OF c] h z assms(1) s by simp
qed

text \<open>\<open>10 ^ 309\<close>, a one and 309 zeros, is read as \<open>Infinity\<close>.\<close>

lemma parseInt_overflows:
  "parseInt (0x31 # replicate 309 0x30) = PosInfinity"
proof -
  let ?s = "0x31 # replicate 309 (0x30 :: 16 word)"
  have v: "digits_value 10 ?s = 10 ^ 309"
    unfolding digits_value_def
    by (simp only: foldl_Cons foldl_zero_digits) (simp add: digit_of_def dec_digit_def)
  have "(2::nat) ^ 1024 \<le> 10 ^ 309" by simp
  then have r: "round_magnitude (10 ^ 309) = None" by (rule round_magnitude_overflow)
  have "parseInt ?s = to_number 1 (digits_value 10 ?s)"
    by (rule parseInt_plain_digits) (simp_all add: dec_digit_def)
  then show ?thesis by (simp only: v to_number_def r) simp
qed

lemmas parseInt_eval = parseInt_def Let_def lit_def is_ws_def digit_of_def dec_digit_def hex_digit_def
      digits_value_def to_number_def round_magnitude_def bit_length.simps

lemma parseInt_examples:
  "parseInt [] = NaN"
  "parseInt (lit ''0'') = Num 0"
  "parseInt (lit ''5'') = Num 5"
  "parseInt (lit ''100'') = Num 100"
  "parseInt (lit ''-7'') = Num (- 7)"
  "parseInt (lit ''1e3'') = Num 1"
  by (simp_all add: parseInt_eval)

text \<open>Ties go to the even significand: \<open>2 ^ 53 + 1\<close> down, \<open>2 ^ 53 + 3\<close> up.\<close>

lemma parseInt_rounds:
  "parseInt (lit ''9007199254740993'') = Num 9007199254740992"
  "parseInt (lit ''-9007199254740995'') = Num (- 9007199254740996)"
  by (simp_all add: parseInt_eval)

lemma or_num_cases:
  "or_num NaN d = d"
  "or_num (Num 0) d = d"
  "v \<noteq> NaN \<Longrightarrow> v \<noteq> Num 0 \<Longrightarrow> or_num v d = v"
  by (cases v; simp add: or_num_def)+

text \<open>
  Claim C10. For every text entered in the duration or the credits field of the create
  form, the stored value is \<open>parseInt\<close> of the text when that is a number other than
  zero, and 30 otherwise: the empty text, a text that starts no number and \<open>0\<close> all
  give 30, and any other value read is stored as the Number \<open>parseInt\<close> returns,
  also outside 15 to 60. The other fields of the form are kept.
\<close>

theorem C10_parse_or_30:
  "(parseInt text = v \<and> v \<noteq> NaN \<and> v \<noteq> Num 0 \<longrightarrow>
      onChange_duration p text ''duration'' = Some (FNumber v) \<and>
      onChange_credits p text ''credits_offered'' = Some (FNumber v))
   \<and> (parseInt text = NaN \<or> parseInt text = Num 0 \<longrightarrow>
      onChange_duration p text ''duration'' = Some (FNumber (Num 30)) \<and>
      onChange_credits p text ''credits_offered'' = Some (FNumber (Num 30)))
   \<and> (non_numeric text \<longrightarrow>
      onChange_duration p text ''duration'' = Some (FNumber (Num 30)) \<and>
      onChange_credits p text ''credits_offered'' = Some (FNumber (Num 30)))
   \<and> onChange_duration p [] ''duration'' = Some (FNumber (Num 30))
   \<and> onChange_duration p (lit ''0'') ''duration'' = Some (FNumber (Num 30))
   \<and> onChange_duration p (lit ''5'') ''duration'' = Some (FNumber (Num 5))
   \<and> onChange_duration p (lit ''100'') ''duration'' = Some (FNumber (Num 100))
   \<and> (\<forall>k. k \<noteq> ''duration'' \<longrightarrow> onChange_duration p text k = p k)
   \<and> (\<forall>k. k \<noteq> ''credits_offered'' \<longrightarrow> onChange_credits p text k = p k)"
proof -
  have a: "parseInt text = v \<and> v \<noteq> NaN \<and> v \<noteq> Num 0 \<Longrightarrow> or_num (parseInt text) (Num 30) = v"
    by (auto simp: or_num_cases)
  have b: "parseInt text = NaN \<or> parseInt text = Num 0 \<Longrightarrow> or_num (parseInt text) (Num 30) = Num 30"
    by (auto simp: or_num_cases)
  have c: "non_numeric text \<Longrightarrow> or_num (parseInt text) (Num 30) = Num 30"
    using parseInt_non_numeric [of "text"] by (simp add: or_num_cases)
  have d: "or_num (parseInt []) (Num 30) = Num 30"
    "or_num (parseInt (lit ''0'')) (Num 30) = Num 30"
    "or_num (parseInt (lit ''5'')) (Num 30) = Num 5"
    "or_num (parseInt (lit ''100'')) (Num 30) = Num 100"
    by (simp_all add: parseInt_examples or_num_def)
  show ?thesis
    using a b c d by (simp add: onChange_duration_def onChange_credits_def)
qed

theorem C10_parse_or_30_witness:
  "onChange_duration initial_form_object (lit ''9007199254740993'') ''duration''
     = Some (FNumber (Num 9007199254740992))
   \<and> onChange_credits initial_form_object (0x31 # replicate 309 0x30) ''credits_offered''
     = Some (FNumber PosInfinity)
   \<and> onChange_credits initial_form_object [] ''credits_offered'' = Some (FNumber (Num 30))
   \<and> onChange_duration initial_form_object (lit ''-7'') ''credits_offered''
     = Some (FNumber (Num 30))"
proof -
  have h1: "parseInt (lit ''9007199254740993'') = Num 9007199254740992
      \<and> Num 9007199254740992 \<noteq> NaN \<and> Num 9007199254740992 \<noteq> Num 0"
    by (simp add: parseInt_rounds)
  have h2: "parseInt (0x31 # replicate 309 0x30) = PosInfinity
      \<and> PosInfinity \<noteq> NaN \<and> PosInfinity \<noteq> Num 0"
    by (simp only: parseInt_overflows) simp
  have h3: "parseInt [] = NaN \<or> parseInt [] = Num 0"
    by (simp add: parseInt_examples)
  have h4: "''credits_offered'' \<noteq> ''duration''"
    by simp
  have i: "initial_form_object ''credits_offered'' = Some (FNumber (Num 30))"
    by (simp add: initial_form_object_def)
  have a: "onChange_duration initial_form_object (lit ''9007199254740993'') ''duration''
     = Some (FNumber (Num 9007199254740992))"
    using C10_parse_or_30
      [of "lit ''9007199254740993''" "Num 9007199254740992" initial_form_object] h1
    by blast
  have b: "onChange_credits initial_form_object (0x31 # replicate 309 0x30) ''credits_offered''
     = Some (FNumber PosInfinity)"
    using C10_parse_or_30 [of "0x31 # replicate 309 0x30" PosInfinity initial_form_object] h2
    by blast
  have c: "onChange_credits initial_form_object [] ''credits_offered'' = Some (FNumber (Num 30))"
    using C10_parse_or_30 [of "[]" NaN initial_form_object] h3
    by blast
  have d: "onChange_duration initial_form_object (lit ''-7'') ''credits_offered''
     = Some (FNumber (Num 30))"
    using C10_parse_or_30 [of "lit ''-7''" NaN initial_form_object] h4 i
    by metis
  show ?thesis
    using a b c d by (simp only: simp_thms)
qed

lemma handleValidation_requests:
  "requests_of (handleValidation task taskId resp) =
     (if truthy (t_before_photo task) \<and> truthy (t_after_photo task)
      then [\<lparr>r_method = POST, r_url = TaskValidate (JStr taskId), r_params = Map.empty,
              r_body = NoBody\<rparr>]
      else [])"
  by (cases resp) (simp_all add: handleValidation_def)

lemma photo_value_truthy: "photo_value v \<Longrightarrow> truthy v = non_empty v"
  by (cases v) (simp_all add: photo_value_def non_empty_def)

text \<open>
  Claim C3. For every task on the task detail page, \<open>handleValidation\<close> posts the
  validate request only when both \<open>before_photo\<close> and \<open>after_photo\<close> are non-empty.
  If either is missing it only shows the warning and performs no call, and the
  Complete Task button is not clickable; so no validation is attempted with only the
  before photo set.
\<close>

theorem C3_validate_needs_both_photos:
  assumes "photo_value (t_before_photo task)" and "photo_value (t_after_photo task)"
  shows "(requests_of (handleValidation task taskId resp) \<noteq> [] \<longleftrightarrow>
            non_empty (t_before_photo task) \<and> non_empty (t_after_photo task))
       \<and> (non_empty (t_before_photo task) \<and> non_empty (t_after_photo task) \<longrightarrow>
            requests_of (handleValidation task taskId resp) =
              [\<lparr>r_method = POST, r_url = TaskValidate (JStr taskId), r_params = Map.empty,
                r_body = NoBody\<rparr>])
       \<and> (\<not> non_empty (t_before_photo task) \<or> \<not> non_empty (t_after_photo task) \<longrightarrow>
            handleValidation task taskId resp =
              [Toast Warning (JStr (lit ''Please upload both before and after photos.''))]
            \<and> complete_button user task \<noteq> Enabled)"
proof -
  have t: "truthy (t_before_photo task) = non_empty (t_before_photo task)"
    "truthy (t_after_photo task) = non_empty (t_after_photo task)"
    using assms by (simp_all add: photo_value_truthy)
  have r: "requests_of (handleValidation task taskId resp) =
     (if non_empty (t_before_photo task) \<and> non_empty (t_after_photo task)
      then [\<lparr>r_method = POST, r_url = TaskValidate (JStr taskId), r_params = Map.empty,
              r_body = NoBody\<rparr>]
      else [])"
    by (simp add: handleValidation_requests t)
  have w: "\<not> non_empty (t_before_photo task) \<or> \<not> non_empty (t_after_photo task) \<Longrightarrow>
      handleValidation task taskId resp =
        [Toast Warning (JStr (lit ''Please upload both before and after photos.''))]"
    by (auto simp: handleValidation_def t)
  have b: "\<not> non_empty (t_before_photo task) \<or> \<not> non_empty (t_after_photo task) \<Longrightarrow>
      complete_button user task \<noteq> Enabled"
    by (auto simp: complete_button_def t)
  show ?thesis
    using w b by (simp add: r)
qed

theorem C3_validate_needs_both_photos_witness:
  "handleValidation (own_open_task\<lparr>t_before_photo := JStr (lit ''data:a'')\<rparr>) (lit ''t1'') (Resolved ())
     = [Toast Warning (JStr (lit ''Please upload both before and after photos.''))]
   \<and> requests_of (handleValidation
        (own_open_task\<lparr>t_before_photo := JStr (lit ''data:a''), t_after_photo := JStr (lit ''data:b'')\<rparr>)
        (lit ''t1'') (Resolved ()))
     = [\<lparr>r_method = POST, r_url = TaskValidate (JStr (lit ''t1'')), r_params = Map.empty,
         r_body = NoBody\<rparr>]"
  using C3_validate_needs_both_photos
      [of "own_open_task\<lparr>t_before_photo := JStr (lit ''data:a'')\<rparr>" "lit ''t1''" "Resolved ()" current_user]
    C3_validate_needs_both_photos
      [of "own_open_task\<lparr>t_before_photo := JStr (lit ''data:a''), t_after_photo := JStr (lit ''data:b'')\<rparr>"
          "lit ''t1''" "Resolved ()" current_user]
  by (simp add: own_open_task_def photo_value_def non_empty_def lit_def)

text \<open>
  Claim C4, as stated, fails: for an open task whose creator is the current user the
  card offers Accept Task, and \<open>handleAssign\<close> posts the assign request.
\<close>

theorem C4_own_task_counterexample:
  "t_created_by own_open_task = u_id current_user
   \<and> accept_button own_open_task = Enabled
   \<and> requests_of (handleAssign own_open_task True (Resolved ())) =
       [\<lparr>r_method = POST, r_url = TaskAssign (JStr (lit ''t1'')), r_params = Map.empty,
         r_body = NoBody\<rparr>]"
  by (simp add: own_open_task_def current_user_def accept_button_def handleAssign_def)

text \<open>
  Claim C4, amended. The card offers Accept Task exactly when the status of the task
  is \<open>open\<close>, whoever created it; \<open>handleAssign\<close> posts the assign request for
  the id of the task, and a rejection by the server is shown as an error message.
\<close>

theorem C4_accept_offered_iff_open:
  "(accept_button task = Enabled \<longleftrightarrow> t_status task = JStr (lit ''open''))
   \<and> accept_button (task\<lparr>t_created_by := creator\<rparr>) = accept_button task
   \<and> requests_of (handleAssign task onAssign resp) =
       [\<lparr>r_method = POST, r_url = TaskAssign (t_id task), r_params = Map.empty, r_body = NoBody\<rparr>]
   \<and> handleAssign (task\<lparr>t_created_by := creator\<rparr>) onAssign resp = handleAssign task onAssign resp
   \<and> handleAssign task onAssign (Rejected detail :: unit response) =
       [Http \<lparr>r_method = POST, r_url = TaskAssign (t_id task), r_params = Map.empty, r_body = NoBody\<rparr>,
        Toast Error (js_or detail (JStr (lit ''Failed to assign task'')))]"
  by (cases resp) (simp_all add: accept_button_def handleAssign_def)

lemma loadTasks_requests:
  "requests_of (loadTasks filters resp) =
     [\<lparr>r_method = GET, r_url = Tasks, r_params = loadTasks_params filters, r_body = NoBody\<rparr>]"
  by (cases resp) (simp_all add: loadTasks_def)

lemma loadTasks_params_status:
  "filters ''status'' = None \<Longrightarrow> loadTasks_params filters ''status'' = Some (JStr (lit ''open''))"
  by (simp add: loadTasks_params_def Let_def map_add_def)

text \<open>
  Claim C6. For every filter object without a \<open>status\<close> key, and so for both objects
  the explore page passes to \<open>loadTasks\<close>, the task-list request carries the
  parameter \<open>status\<close> with the value \<open>open\<close>.
\<close>

theorem C6_status_open:
  "(filters ''status'' = None \<longrightarrow>
      requests_of (loadTasks filters resp) =
        [\<lparr>r_method = GET, r_url = Tasks, r_params = loadTasks_params filters, r_body = NoBody\<rparr>]
      \<and> loadTasks_params filters ''status'' = Some (JStr (lit ''open'')))
   \<and> effect_filters f ''status'' = None
   \<and> state_filters f ''status'' = None
   \<and> (\<forall>r \<in> set (requests_of (BrowseTasks_effect f resp) @ requests_of (BrowseTasks_onAssign f resp)).
        r_method r = GET \<and> r_url r = Tasks \<and> r_params r ''status'' = Some (JStr (lit ''open'')))"
proof -
  have e: "effect_filters f ''status'' = None"
    by (simp add: effect_filters_def)
  have s: "state_filters f ''status'' = None"
    by (simp add: state_filters_def)
  show ?thesis
    using e s
    by (simp add: loadTasks_requests loadTasks_params_status BrowseTasks_effect_def
        BrowseTasks_onAssign_def)
qed

theorem C6_status_open_witness:
  "loadTasks_params (effect_filters \<lparr>searchTerm = lit ''dog'', taskType = lit ''offer''\<rparr>) ''status''
     = Some (JStr (lit ''open''))"
  using C6_status_open [of "effect_filters \<lparr>searchTerm = lit ''dog'', taskType = lit ''offer''\<rparr>"]
  by (simp add: effect_filters_def)

text \<open>
  Claim C9. For every type selection of the explore page, All Types included, the
  request of the debounced effect carries \<open>task_type\<close> equal to the selected value.
  \<open>loadTasks\<close> deletes the key \<open>taskType\<close> when it is \<open>all\<close>, but the effect
  supplies the selection under \<open>task_type\<close>, so nothing is deleted and \<open>all\<close> is
  sent.
\<close>

theorem C9_task_type_sent_verbatim:
  "requests_of (BrowseTasks_effect f resp) =
     [\<lparr>r_method = GET, r_url = Tasks, r_params = loadTasks_params (effect_filters f),
       r_body = NoBody\<rparr>]
   \<and> effect_filters f ''taskType'' = None
   \<and> loadTasks_params (effect_filters f) = [''status'' \<mapsto> JStr (lit ''open'')] ++ effect_filters f
   \<and> loadTasks_params (effect_filters f) ''task_type'' = Some (JStr (taskType f))
   \<and> loadTasks_params (effect_filters (f\<lparr>taskType := lit ''all''\<rparr>)) ''task_type''
       = Some (JStr (lit ''all''))
   \<and> loadTasks_params (filters(''taskType'' \<mapsto> JStr (lit ''all''))) ''taskType'' = None"
proof -
  have k: "effect_filters f ''taskType'' = None" for f
    by (simp add: effect_filters_def)
  have p: "loadTasks_params (effect_filters f) = [''status'' \<mapsto> JStr (lit ''open'')] ++ effect_filters f" for f
    by (simp add: loadTasks_params_def k)
  have t: "loadTasks_params (effect_filters f) ''task_type'' = Some (JStr (taskType f))" for f
    by (simp add: p) (simp add: effect_filters_def)
  have d: "loadTasks_params (filters(''taskType'' \<mapsto> JStr (lit ''all''))) ''taskType'' = None"
    by (simp add: loadTasks_params_def)
  show ?thesis
    using k [of f] p [of f] t [of f] t [of "f\<lparr>taskType := lit ''all''\<rparr>"] d
    by (simp add: BrowseTasks_effect_def loadTasks_requests)
qed

text \<open>
  The reload after an assignment passes the state object instead, whose keys are
  \<open>searchTerm\<close> and \<open>taskType\<close>: that request carries no \<open>task_type\<close>, and there
  the deletion does apply.
\<close>

lemma onAssign_reload_params:
  "loadTasks_params (state_filters f) ''task_type'' = None"
  "loadTasks_params (state_filters (f\<lparr>taskType := lit ''all''\<rparr>)) ''taskType'' = None"
  "taskType f \<noteq> lit ''all'' \<Longrightarrow> loadTasks_params (state_filters f) ''taskType'' = Some (JStr (taskType f))"
  by (simp_all add: loadTasks_params_def state_filters_def Let_def map_add_def)

lemma fetchTask_requests: "requests_of (fetchTask taskId resp) = [my_tasks_request]"
  by (cases resp) (simp_all add: fetchTask_def my_tasks_request_def split: option.splits)

text \<open>
  Claim C7. For every route task id, \<open>fetchTask\<close> issues one request, the one for
  the whole collection of the user's tasks, and no request by id. It selects the first
  element whose id equals the route parameter; when no element of the list matches, it
  reports the task as not found and navigates to the list of the user's tasks.
\<close>

theorem C7_fetchTask_scans_my_tasks:
  "requests_of (fetchTask taskId resp) = [my_tasks_request]
   \<and> r_url my_tasks_request = TasksMy
   \<and> (find (\<lambda>t. t_id t = JStr taskId) data = Some foundTask \<longrightarrow>
        foundTask \<in> set data \<and> t_id foundTask = JStr taskId \<and>
        fetchTask taskId (Resolved data) =
          [SetLoading True, Http my_tasks_request, SetTask foundTask, SetLoading False])
   \<and> ((\<exists>t \<in> set data. t_id t = JStr taskId) \<longrightarrow>
        (\<exists>t. find (\<lambda>t. t_id t = JStr taskId) data = Some t))
   \<and> ((\<forall>t \<in> set data. t_id t \<noteq> JStr taskId) \<longrightarrow>
        fetchTask taskId (Resolved data) =
          [SetLoading True, Http my_tasks_request,
           Toast Error (JStr (lit ''Task not found or you don't have access.'')),
           Navigate ''/dashboard/my-tasks'', SetLoading False])"
proof -
  have a: "find (\<lambda>t. t_id t = JStr taskId) data = Some foundTask \<Longrightarrow>
        foundTask \<in> set data \<and> t_id foundTask = JStr taskId"
    by (auto simp: find_Some_iff)
  have b: "find (\<lambda>t. t_id t = JStr taskId) data = Some foundTask \<Longrightarrow>
        fetchTask taskId (Resolved data) =
          [SetLoading True, Http my_tasks_request, SetTask foundTask, SetLoading False]"
    by (simp add: fetchTask_def my_tasks_request_def)
  have c: "\<exists>t \<in> set data. t_id t = JStr taskId \<Longrightarrow>
        \<exists>t. find (\<lambda>t. t_id t = JStr taskId) data = Some t"
    by (cases "find (\<lambda>t. t_id t = JStr taskId) data") (auto simp: find_None_iff)
  have n: "\<forall>t \<in> set data. t_id t \<noteq> JStr taskId \<Longrightarrow>
        find (\<lambda>t. t_id t = JStr taskId) data = None"
    by (simp add: find_None_iff)
  have d: "\<forall>t \<in> set data. t_id t \<noteq> JStr taskId \<Longrightarrow>
        fetchTask taskId (Resolved data) =
          [SetLoading True, Http my_tasks_request,
           Toast Error (JStr (lit ''Task not found or you don't have access.'')),
           Navigate ''/dashboard/my-tasks'', SetLoading False]"
    using n by (simp add: fetchTask_def my_tasks_request_def)
  show ?thesis
    using a b c d by (simp add: fetchTask_requests my_tasks_request_def)
qed

theorem C7_fetchTask_scans_my_tasks_witness:
  "fetchTask (lit ''t1'') (Resolved [own_open_task\<lparr>t_id := JStr (lit ''t0'')\<rparr>, own_open_task]) =
     [SetLoading True, Http my_tasks_request, SetTask own_open_task, SetLoading False]
   \<and> fetchTask (lit ''t2'') (Resolved [own_open_task]) =
     [SetLoading True, Http my_tasks_request,
      Toast Error (JStr (lit ''Task not found or you don't have access.'')),
      Navigate ''/dashboard/my-tasks'', SetLoading False]"
  using C7_fetchTask_scans_my_tasks
      [of "lit ''t1''" "Resolved []" "[own_open_task\<lparr>t_id := JStr (lit ''t0'')\<rparr>, own_open_task]"
          own_open_task]
    C7_fetchTask_scans_my_tasks [of "lit ''t2''" "Resolved []" "[own_open_task]" own_open_task]
  by (simp add: own_open_task_def lit_def)

lemma balances_setStatus: "balances (setStatus s tid st) = balances s"
  by (simp add: setStatus_def split: option.splits)

lemma validate_failure_keeps_state:
  "fst (validate s tid a) = Inl e \<Longrightarrow> snd (validate s tid a) = s"
  by (auto simp: validate_def Let_def split: option.splits if_splits sum.splits)

lemma validate_success:
  assumes "tasks s tid = Some t" "status t = Assigned" "assignee t = Some a" "accepts t"
    and "0 < credits_offered t" "owner t \<noteq> a" "credits_offered t \<le> balances s (owner t)"
  shows "validate s tid a =
           (Inr (t\<lparr>status := Validated\<rparr>),
            s\<lparr>tasks := (tasks s)(tid \<mapsto> t\<lparr>status := Validated\<rparr>),
              balances := (balances s)(owner t := balances s (owner t) - credits_offered t,
                                       a := balances s a + credits_offered t)\<rparr>)"
  using assms by (simp add: validate_def Let_def transfer_def balances_setStatus setStatus_def)

text \<open>
  Claim C2. For every task in status \<open>assigned\<close>: when the owner's balance is below
  \<open>credits_offered\<close>, \<open>validate\<close> by the assignee fails with \<open>TransferFailed\<close>;
  and whenever \<open>validate\<close> fails with \<open>TransferFailed\<close>, the state after the call is
  the state before it: the status is still \<open>assigned\<close> and the balances of the owner
  and of the assignee are unchanged.
\<close>

theorem C2_validate_all_or_nothing:
  assumes "tasks s tid = Some t" and "status t = Assigned"
  shows "(assignee t = Some a \<and> accepts t \<and> balances s (owner t) < credits_offered t \<longrightarrow>
            fst (validate s tid a) = Inl TransferFailed)
       \<and> (fst (validate s tid a) = Inl TransferFailed \<longrightarrow>
            snd (validate s tid a) = s
            \<and> map_option status (tasks (snd (validate s tid a)) tid) = Some Assigned
            \<and> balances (snd (validate s tid a)) (owner t) = balances s (owner t)
            \<and> balances (snd (validate s tid a)) a = balances s a)"
proof -
  have f: "assignee t = Some a \<and> accepts t \<and> balances s (owner t) < credits_offered t \<Longrightarrow>
            fst (validate s tid a) = Inl TransferFailed"
    using assms
    by (simp add: validate_def Let_def transfer_def balances_setStatus split: sum.splits)
  have k: "fst (validate s tid a) = Inl TransferFailed \<Longrightarrow> snd (validate s tid a) = s"
    by (rule validate_failure_keeps_state)
  show ?thesis
    using f k assms by auto
qed

theorem C2_validate_all_or_nothing_witness:
  "validate scenario4 0 2 = (Inl TransferFailed, scenario4)
   \<and> map_option status (tasks scenario4 0) = Some Assigned
   \<and> balances scenario4 1 = 10 \<and> balances scenario4 2 = 0"
proof -
  have h: "tasks scenario4 0 = Some scenario4_task" "status scenario4_task = Assigned"
    by (simp_all add: scenario4_def scenario4_task_def)
  have p: "assignee scenario4_task = Some 2 \<and> accepts scenario4_task
      \<and> balances scenario4 (owner scenario4_task) < credits_offered scenario4_task"
    by (simp add: scenario4_def scenario4_task_def accepts_def)
  show ?thesis
    using C2_validate_all_or_nothing [OF h, of 2] p
    by (simp add: scenario4_def scenario4_task_def prod_eq_iff)
qed

text \<open>
  Claim C5. \<open>create\<close> validates its bounds: a request whose duration is outside 15 to
  60, whose credits are not positive or whose title is empty fails with
  \<open>ValidationError\<close> and no task is created; otherwise a task with status \<open>open\<close>
  is created, and it satisfies the bounds. The client's submit handler sends the form
  data unchecked and shows the failure.
\<close>

theorem C5_create_validates_bounds:
  "(bounds_ok flds \<longleftrightarrow>
      15 \<le> cb_duration flds \<and> cb_duration flds \<le> 60 \<and>
      0 < cb_credits_offered flds \<and> cb_title flds \<noteq> [])
   \<and> (\<not> bounds_ok flds \<longrightarrow> create s u flds = (Inl ValidationError, s))
   \<and> (bounds_ok flds \<longrightarrow>
        (\<exists>t. create s u flds =
               (Inr t, s\<lparr>tasks := (tasks s)(next_id s \<mapsto> t), next_id := Suc (next_id s)\<rparr>)
           \<and> status t = Open \<and> owner t = u
           \<and> 15 \<le> duration t \<and> duration t \<le> 60 \<and> 0 < credits_offered t \<and> title t \<noteq> []))
   \<and> (\<not> bounds_ok (CreateTask_body formData) \<longrightarrow>
        submit_create s u formData =
          (CreateTask_handleSubmit formData (Rejected JUndefined :: core_task response), s))"
  by (auto simp: bounds_ok_def create_def Let_def submit_create_def)

theorem C5_create_validates_bounds_witness:
  "create no_tasks 1 (CreateTask_body (initial_formData\<lparr>cf_duration := 5, cf_title := lit ''Walk''\<rparr>))
     = (Inl ValidationError, no_tasks)
   \<and> fst (submit_create no_tasks 1 initial_formData) =
       [SetLoading True,
        Http \<lparr>r_method = POST, r_url = Tasks, r_params = Map.empty,
              r_body = CreateBody (CreateTask_body initial_formData)\<rparr>,
        Toast Error (JStr (lit ''Failed to create task'')),
        SetLoading False]
   \<and> (\<exists>t. fst (create no_tasks 1 (CreateTask_body (initial_formData\<lparr>cf_title := lit ''Walk''\<rparr>))) = Inr t
          \<and> status t = Open)"
proof -
  have h1: "\<not> bounds_ok (CreateTask_body (initial_formData\<lparr>cf_duration := 5, cf_title := lit ''Walk''\<rparr>))"
    by (simp add: bounds_ok_def CreateTask_body_def initial_formData_def)
  have h2: "bounds_ok (CreateTask_body (initial_formData\<lparr>cf_title := lit ''Walk''\<rparr>))"
    by (simp add: bounds_ok_def CreateTask_body_def initial_formData_def lit_def)
  have h3: "\<not> bounds_ok (CreateTask_body initial_formData)"
    by (simp add: bounds_ok_def CreateTask_body_def initial_formData_def)
  have r: "CreateTask_handleSubmit initial_formData (Rejected JUndefined :: core_task response) =
       [SetLoading True,
        Http \<lparr>r_method = POST, r_url = Tasks, r_params = Map.empty,
              r_body = CreateBody (CreateTask_body initial_formData)\<rparr>,
        Toast Error (JStr (lit ''Failed to create task'')),
        SetLoading False]"
    by (simp add: CreateTask_handleSubmit_def js_or_def)
  show ?thesis
    using C5_create_validates_bounds
        [of "CreateTask_body (initial_formData\<lparr>cf_duration := 5, cf_title := lit ''Walk''\<rparr>)"
            no_tasks 1 initial_formData]
      C5_create_validates_bounds
        [of "CreateTask_body (initial_formData\<lparr>cf_title := lit ''Walk''\<rparr>)" no_tasks 1
            initial_formData]
      h1 h2 h3 r
    by auto
qed

end
